theory Spec2Isabelle
  imports Complex_Main
begin

section \<open>Numbers and the JUCE helpers the oscillators use\<close>

text \<open>
  The C++ types \<^verbatim>\<open>float\<close> and \<^verbatim>\<open>double\<close> are modelled by \<^typ>\<open>real\<close>: the
  arithmetic of the source is read as exact arithmetic, so rounding, infinities and
  NaN are outside this model, and a \<^verbatim>\<open>static_cast\<close> between the two is the
  identity.
\<close>

text \<open>The constants of the anonymous namespace of PluginProcessor.cpp.\<close>

definition hfCompA0 :: real where
  "hfCompA0 = 2.5"

definition hfCompA1 :: real where
  "hfCompA1 = - 1.5"

definition minNorm :: real where
  "minNorm = 0.001"

text \<open>\<^verbatim>\<open>juce::MathConstants<float>::twoPi\<close>.\<close>

definition twoPi :: real where
  "twoPi = 2 * pi"

text \<open>
  Modelled from the spec: \<^verbatim>\<open>juce::jlimit\<close>, \<^verbatim>\<open>juce::jmax\<close> and \<^verbatim>\<open>juce::jmap\<close> are
  templates of the JUCE library, which is not under src/. The spec calls them clamp,
  max and lerp; the bodies below are the comparisons JUCE documents for them
  (\<^verbatim>\<open>jlimit (lower, upper, value)\<close> constrains \<^verbatim>\<open>value\<close>; \<^verbatim>\<open>jmap\<close> remaps a value from a
  source range to a target range).
\<close>

definition jlimit :: "real \<Rightarrow> real \<Rightarrow> real \<Rightarrow> real" where
  "jlimit lowerLimit upperLimit valueToConstrain =
     (if valueToConstrain < lowerLimit then lowerLimit
      else if upperLimit < valueToConstrain then upperLimit
      else valueToConstrain)"

definition jmax :: "real \<Rightarrow> real \<Rightarrow> real" where
  "jmax a b = (if a < b then b else a)"

definition jmap :: "real \<Rightarrow> real \<Rightarrow> real \<Rightarrow> real \<Rightarrow> real \<Rightarrow> real" where
  "jmap sourceValue sourceRangeMin sourceRangeMax targetRangeMin targetRangeMax =
     targetRangeMin
       + ((targetRangeMax - targetRangeMin) * (sourceValue - sourceRangeMin))
           / (sourceRangeMax - sourceRangeMin)"

section \<open>AntiAliasedSawOscillator\<close>

text \<open>The five private fields of the class, with their in-class initialisers.\<close>

record AntiAliasedSawOscillator =
  phase :: real
  osc :: real
  previousInput :: real
  w :: real
  beta :: real

definition saw_init :: AntiAliasedSawOscillator where
  "saw_init = \<lparr>phase = 0, osc = 0, previousInput = 0, w = 0, beta = 0\<rparr>"

text \<open>\<^verbatim>\<open>AntiAliasedSawOscillator::setFrequency\<close>, lines 145-154.\<close>

definition saw_setFrequency ::
  "real \<Rightarrow> real \<Rightarrow> AntiAliasedSawOscillator \<Rightarrow> AntiAliasedSawOscillator" where
  "saw_setFrequency newFrequency newSampleRate s =
     (if newSampleRate \<le> 0 then s
      else
        (let normalised = newFrequency / newSampleRate;
             s1 = s\<lparr>w := jlimit 0 0.49 normalised\<rparr>;
             diff = 0.5 - w s1
         in s1\<lparr>beta := 13 * diff * diff * diff * diff\<rparr>))"

text \<open>
  \<^verbatim>\<open>AntiAliasedSawOscillator::getNextSample\<close>, lines 157-175: the returned sample and
  the object after the call.
\<close>

definition saw_getNextSample ::
  "AntiAliasedSawOscillator \<Rightarrow> real \<times> AntiAliasedSawOscillator" where
  "saw_getNextSample s =
     (let feedbackPhase = phase s + (osc s * beta s);
          input = sin (twoPi * feedbackPhase);
          s1 = s\<lparr>osc := 0.5 * (osc s + input)\<rparr>;
          filtered = (hfCompA0 * osc s1) + (hfCompA1 * previousInput s1);
          s2 = s1\<lparr>previousInput := osc s1\<rparr>;
          dc = 0.376 - (0.752 * w s2);
          norm = jmax minNorm (1 - (2 * w s2));
          sample = (filtered - dc) / norm;
          s3 = s2\<lparr>phase := phase s2 + w s2\<rparr>;
          s4 = (if phase s3 \<ge> 1 then s3\<lparr>phase := phase s3 - 1\<rparr> else s3)
      in (sample, s4))"

text \<open>\<^verbatim>\<open>AntiAliasedSawOscillator::reset\<close>, lines 177-182.\<close>

definition saw_reset :: "AntiAliasedSawOscillator \<Rightarrow> AntiAliasedSawOscillator" where
  "saw_reset s = s\<lparr>phase := 0, osc := 0, previousInput := 0\<rparr>"

section \<open>AntiAliasedPulseOscillator\<close>

record AntiAliasedPulseOscillator =
  leadingEdge :: AntiAliasedSawOscillator
  trailingEdge :: AntiAliasedSawOscillator
  pulseWidth :: real

definition pulse_init :: AntiAliasedPulseOscillator where
  "pulse_init = \<lparr>leadingEdge = saw_init, trailingEdge = saw_init, pulseWidth = 0.5\<rparr>"

text \<open>\<^verbatim>\<open>AntiAliasedPulseOscillator::setFrequency\<close>, lines 185-189.\<close>

definition pulse_setFrequency ::
  "real \<Rightarrow> real \<Rightarrow> AntiAliasedPulseOscillator \<Rightarrow> AntiAliasedPulseOscillator" where
  "pulse_setFrequency newFrequency newSampleRate p =
     (let p1 = p\<lparr>leadingEdge := saw_setFrequency newFrequency newSampleRate (leadingEdge p)\<rparr>
      in p1\<lparr>trailingEdge := saw_setFrequency newFrequency newSampleRate (trailingEdge p1)\<rparr>)"

text \<open>\<^verbatim>\<open>AntiAliasedPulseOscillator::setPulseWidth\<close>, lines 192-195.\<close>

definition pulse_setPulseWidth ::
  "real \<Rightarrow> AntiAliasedPulseOscillator \<Rightarrow> AntiAliasedPulseOscillator" where
  "pulse_setPulseWidth newPulseWidth p = p\<lparr>pulseWidth := jlimit 0.01 0.99 newPulseWidth\<rparr>"

text \<open>
  The loop of lines 203-204, \<^verbatim>\<open>while (shiftedPhase >= 1.0f) shiftedPhase -= 1.0f;\<close>.
  Over the reals it ends for every start value: the integer part of the value drops by
  one in each round.
\<close>

function shiftedPhase_loop :: "real \<Rightarrow> real" where
  "shiftedPhase_loop shiftedPhase =
     (if shiftedPhase \<ge> 1 then shiftedPhase_loop (shiftedPhase - 1) else shiftedPhase)"
  by pat_completeness auto
termination
proof (relation "measure (\<lambda>x. nat \<lfloor>x\<rfloor>)")
  show "wf (measure (\<lambda>x::real. nat \<lfloor>x\<rfloor>))"
    by simp
next
  fix shiftedPhase :: real
  assume ge: "1 \<le> shiftedPhase"
  have "\<lfloor>shiftedPhase - 1\<rfloor> = \<lfloor>shiftedPhase\<rfloor> - 1"
    by simp
  moreover have "1 \<le> \<lfloor>shiftedPhase\<rfloor>"
    using ge by linarith
  ultimately show "(shiftedPhase - 1, shiftedPhase) \<in> measure (\<lambda>x. nat \<lfloor>x\<rfloor>)"
    by simp
qed

declare shiftedPhase_loop.simps [simp del]

text \<open>
  \<^verbatim>\<open>AntiAliasedPulseOscillator::getNextSample\<close>, lines 198-224. The reference \<^verbatim>\<open>t\<close> to
  the trailing edge is the value \<open>t\<close> threaded through the updates.
\<close>

definition pulse_getNextSample ::
  "AntiAliasedPulseOscillator \<Rightarrow> real \<times> AntiAliasedPulseOscillator" where
  "pulse_getNextSample p =
     (let (leading, le) = saw_getNextSample (leadingEdge p);
          p1 = p\<lparr>leadingEdge := le\<rparr>;
          shiftedPhase = shiftedPhase_loop (phase (leadingEdge p1) + pulseWidth p1);
          t = trailingEdge p1;
          feedbackPhase = shiftedPhase + (osc t * beta t);
          input = sin (twoPi * feedbackPhase);
          t1 = t\<lparr>osc := 0.5 * (osc t + input)\<rparr>;
          filtered = (hfCompA0 * osc t1) + (hfCompA1 * previousInput t1);
          t2 = t1\<lparr>previousInput := osc t1\<rparr>;
          dc = 0.376 - (0.752 * w t2);
          norm = jmax minNorm (1 - (2 * w t2));
          trailing = (filtered - dc) / norm;
          t3 = t2\<lparr>phase := shiftedPhase + w t2\<rparr>;
          t4 = (if phase t3 \<ge> 1 then t3\<lparr>phase := phase t3 - 1\<rparr> else t3);
          pulse = jlimit (- 1) 1 (leading - trailing)
      in (pulse, p1\<lparr>trailingEdge := t4\<rparr>))"

text \<open>\<^verbatim>\<open>AntiAliasedPulseOscillator::reset\<close>, lines 226-230.\<close>

definition pulse_reset :: "AntiAliasedPulseOscillator \<Rightarrow> AntiAliasedPulseOscillator" where
  "pulse_reset p =
     (let p1 = p\<lparr>leadingEdge := saw_reset (leadingEdge p)\<rparr>
      in p1\<lparr>trailingEdge := saw_reset (trailingEdge p1)\<rparr>)"

text \<open>
  The public interface of the pulse oscillator as a datatype of calls, and the object
  after a list of calls made in order. The fields are private, so the states an
  oscillator can be in are the ones \<open>pulse_calls\<close> reaches from \<open>pulse_init\<close>.
\<close>

datatype pulse_call =
  SetFrequency real real
  | SetPulseWidth real
  | Reset
  | GetNextSample

fun pulse_call_apply :: "pulse_call \<Rightarrow> AntiAliasedPulseOscillator \<Rightarrow> AntiAliasedPulseOscillator" where
  "pulse_call_apply (SetFrequency f sr) p = pulse_setFrequency f sr p"
| "pulse_call_apply (SetPulseWidth pw) p = pulse_setPulseWidth pw p"
| "pulse_call_apply Reset p = pulse_reset p"
| "pulse_call_apply GetNextSample p = snd (pulse_getNextSample p)"

fun pulse_calls :: "pulse_call list \<Rightarrow> AntiAliasedPulseOscillator \<Rightarrow> AntiAliasedPulseOscillator" where
  "pulse_calls [] p = p"
| "pulse_calls (c # cs) p = pulse_calls cs (pulse_call_apply c p)"

section \<open>The parts of JUCE the voice calls\<close>

text \<open>
  The values the three \<^verbatim>\<open>std::atomic<float>\<close> parameters hold when a voice method
  loads them. One call of a method sees one value of each parameter.
\<close>

record ParameterValues =
  gainParam :: real
  pulseWidthParam :: real
  filterCutoffParam :: real

text \<open>
  \<^verbatim>\<open>juce::IIRCoefficients::makeLowPass\<close>, the methods of \<^verbatim>\<open>juce::IIRFilter\<close> and
  \<^verbatim>\<open>juce::Decibels::decibelsToGain\<close> belong to the JUCE library, which is not under
  src/. They are parameters of the model: \<open>'c\<close> is the type of a coefficient set and
  \<open>'f\<close> the type of a filter object; every theorem below holds for every choice of
  them.
\<close>

record ('c, 'f) juce_dsp =
  makeLowPass :: "real \<Rightarrow> real \<Rightarrow> 'c"
  setCoefficients :: "'f \<Rightarrow> 'c \<Rightarrow> 'f"
  filter_reset :: "'f \<Rightarrow> 'f"
  processSingleSampleRaw :: "'f \<Rightarrow> real \<Rightarrow> real \<times> 'f"
  decibelsToGain :: "real \<Rightarrow> real"

text \<open>
  Modelled from the spec: \<^verbatim>\<open>juce::MidiMessage::getMidiNoteInHertz\<close> is a JUCE function,
  not under src/. The spec gives the frequency of a note as
  \<open>440 * 2 ^ ((midiNote - 69) / 12)\<close>, the equal-tempered scale on a 440 Hz reference.
\<close>

definition getMidiNoteInHertz :: "int \<Rightarrow> real" where
  "getMidiNoteInHertz noteNumber = 440 * 2 powr ((real_of_int noteNumber - 69) / 12)"

text \<open>
  Modelled from the spec: \<^verbatim>\<open>juce::AudioBuffer<float>\<close> is a JUCE class, not under src/.
  A buffer is the list of its channels, each the list of its samples. \<^verbatim>\<open>addSample\<close>
  adds a value to one sample of one channel; JUCE asserts that the channel and the
  sample index are inside the buffer and writes through a raw pointer otherwise, so a
  call outside the buffer has no defined result: it is \<open>None\<close> here. \<^verbatim>\<open>clear\<close> sets
  every sample of every channel to zero.
\<close>

type_synonym AudioBuffer = "real list list"

definition getNumChannels :: "AudioBuffer \<Rightarrow> int" where
  "getNumChannels b = int (length b)"

definition getNumSamples :: "AudioBuffer \<Rightarrow> int" where
  "getNumSamples b = (case b of [] \<Rightarrow> 0 | c # _ \<Rightarrow> int (length c))"

definition addSample :: "AudioBuffer \<Rightarrow> int \<Rightarrow> int \<Rightarrow> real \<Rightarrow> AudioBuffer option" where
  "addSample b destChannel destSample valueToAdd =
     (if 0 \<le> destChannel \<and> destChannel < int (length b)
         \<and> 0 \<le> destSample \<and> destSample < int (length (b ! nat destChannel))
      then Some (b[nat destChannel :=
                    (b ! nat destChannel)[nat destSample :=
                       b ! nat destChannel ! nat destSample + valueToAdd]])
      else None)"

definition buffer_clear :: "AudioBuffer \<Rightarrow> AudioBuffer" where
  "buffer_clear b = map (map (\<lambda>_. 0)) b"

section \<open>AntiAliasedVoice\<close>

text \<open>
  The fields of the voice. The first three are the part of the base class
  \<^verbatim>\<open>juce::SynthesiserVoice\<close> the methods read and write: the sample rate that
  \<^verbatim>\<open>getSampleRate()\<close> returns, and the note and MIDI channel the synthesiser assigned
  (\<open>- 1\<close> is no note). The rest are the private fields of lines 132-141; the three
  parameter pointers are the \<open>ParameterValues\<close> argument of the methods.
\<close>

record 'f AntiAliasedVoice =
  getSampleRate :: real
  currentlyPlayingNote :: int
  currentPlayingMidiChannel :: int
  pulseOsc :: AntiAliasedPulseOscillator
  currentLevel :: real
  currentFrequency :: real
  isActive :: bool
  lowPassFilter :: 'f
  currentSampleRate :: real
  lastFilterCutoff :: real

text \<open>A voice as its constructor leaves it, around a default-constructed filter.\<close>

definition voice_init :: "'f \<Rightarrow> 'f AntiAliasedVoice" where
  "voice_init flt =
     \<lparr>getSampleRate = 44100, currentlyPlayingNote = - 1, currentPlayingMidiChannel = 0,
      pulseOsc = pulse_init, currentLevel = 0, currentFrequency = 0, isActive = False,
      lowPassFilter = flt, currentSampleRate = 44100, lastFilterCutoff = - 1\<rparr>"

text \<open>
  Modelled from the spec: \<^verbatim>\<open>isVoiceActive\<close> and \<^verbatim>\<open>clearCurrentNote\<close> are methods of
  \<^verbatim>\<open>juce::SynthesiserVoice\<close>, not under src/. A voice is busy while it has a note; clearing
  the note frees it.
\<close>

definition isVoiceActive :: "'f AntiAliasedVoice \<Rightarrow> bool" where
  "isVoiceActive v = (currentlyPlayingNote v \<ge> 0)"

definition clearCurrentNote :: "'f AntiAliasedVoice \<Rightarrow> 'f AntiAliasedVoice" where
  "clearCurrentNote v = v\<lparr>currentlyPlayingNote := - 1, currentPlayingMidiChannel := 0\<rparr>"

text \<open>
  A voice renders exactly when it passes the test of line 87: it has a note and its own
  flag is set.
\<close>

definition voice_active :: "'f AntiAliasedVoice \<Rightarrow> bool" where
  "voice_active v = (isVoiceActive v \<and> isActive v)"

text \<open>\<^verbatim>\<open>AntiAliasedVoice::updateFilterCoefficients\<close>, lines 119-130.\<close>

definition updateFilterCoefficients ::
  "('c, 'f) juce_dsp \<Rightarrow> ParameterValues \<Rightarrow> 'f AntiAliasedVoice \<Rightarrow> 'f AntiAliasedVoice" where
  "updateFilterCoefficients J P v =
     (if currentSampleRate v \<le> 0 then v
      else
        (let smoothingAmount = filterCutoffParam P;
             maxCutoff = currentSampleRate v * 0.45;
             minCutoff = 200;
             cutoff = jmap smoothingAmount 0 1 maxCutoff minCutoff;
             coeffs = makeLowPass J (currentSampleRate v) cutoff
         in v\<lparr>lowPassFilter := setCoefficients J (lowPassFilter v) coeffs\<rparr>))"

text \<open>\<^verbatim>\<open>AntiAliasedVoice::startNote\<close>, lines 51-69.\<close>

definition startNote ::
  "('c, 'f) juce_dsp \<Rightarrow> ParameterValues \<Rightarrow> int \<Rightarrow> real \<Rightarrow> 'f AntiAliasedVoice
     \<Rightarrow> 'f AntiAliasedVoice" where
  "startNote J P midiNoteNumber velocity v =
     (let sampleRate = getSampleRate v in
      if sampleRate \<le> 0 then clearCurrentNote v
      else
        (let v1 = v\<lparr>currentLevel := velocity\<rparr>;
             v2 = v1\<lparr>currentFrequency := getMidiNoteInHertz midiNoteNumber\<rparr>;
             v3 = v2\<lparr>pulseOsc := pulse_reset (pulseOsc v2)\<rparr>;
             v4 = v3\<lparr>pulseOsc := pulse_setPulseWidth (pulseWidthParam P) (pulseOsc v3)\<rparr>;
             v5 = v4\<lparr>pulseOsc := pulse_setFrequency (currentFrequency v4) sampleRate (pulseOsc v4)\<rparr>;
             v6 = v5\<lparr>currentSampleRate := sampleRate\<rparr>;
             v7 = updateFilterCoefficients J P v6;
             v8 = v7\<lparr>lowPassFilter := filter_reset J (lowPassFilter v7)\<rparr>
         in v8\<lparr>isActive := True\<rparr>))"

text \<open>\<^verbatim>\<open>AntiAliasedVoice::stopNote\<close>, lines 72-79.\<close>

definition stopNote :: "real \<Rightarrow> bool \<Rightarrow> 'f AntiAliasedVoice \<Rightarrow> 'f AntiAliasedVoice" where
  "stopNote velocity allowTailOff v =
     (let v1 = clearCurrentNote v;
          v2 = v1\<lparr>pulseOsc := pulse_reset (pulseOsc v1)\<rparr>;
          v3 = v2\<lparr>isActive := False\<rparr>
      in v3\<lparr>currentLevel := 0\<rparr>)"

text \<open>
  \<^verbatim>\<open>AntiAliasedVoice::renderNextBlock\<close>, lines 85-115, in four parts: the refresh of
  lines 94-103 that runs once per block, the two lines 109-110 that compute one
  sample, the loop over the channels of lines 112-113, and the loop over the samples.
\<close>

definition block_refresh ::
  "('c, 'f) juce_dsp \<Rightarrow> ParameterValues \<Rightarrow> real \<Rightarrow> 'f AntiAliasedVoice \<Rightarrow> 'f AntiAliasedVoice" where
  "block_refresh J P sampleRate v =
     (let v1 = v\<lparr>pulseOsc := pulse_setFrequency (currentFrequency v) sampleRate (pulseOsc v)\<rparr>;
          v2 = v1\<lparr>pulseOsc := pulse_setPulseWidth (pulseWidthParam P) (pulseOsc v1)\<rparr>;
          v3 = v2\<lparr>currentSampleRate := sampleRate\<rparr>;
          smoothingAmount = filterCutoffParam P
      in if \<bar>smoothingAmount - lastFilterCutoff v3\<bar> > 0.001
         then updateFilterCoefficients J P (v3\<lparr>lastFilterCutoff := smoothingAmount\<rparr>)
         else v3)"

definition voice_sample ::
  "('c, 'f) juce_dsp \<Rightarrow> real \<Rightarrow> 'f AntiAliasedVoice \<Rightarrow> real \<times> 'f AntiAliasedVoice" where
  "voice_sample J gain v =
     (let (x, po) = pulse_getNextSample (pulseOsc v);
          rawValue = x * currentLevel v * gain;
          (value, flt) = processSingleSampleRaw J (lowPassFilter v) rawValue
      in (value, v\<lparr>pulseOsc := po, lowPassFilter := flt\<rparr>))"

function channel_loop :: "AudioBuffer \<Rightarrow> int \<Rightarrow> int \<Rightarrow> real \<Rightarrow> AudioBuffer option" where
  "channel_loop outputBuffer channel destSample value =
     (if channel < getNumChannels outputBuffer then
        (case addSample outputBuffer channel destSample value of
           None \<Rightarrow> None
         | Some b \<Rightarrow> channel_loop b (channel + 1) destSample value)
      else Some outputBuffer)"
  by pat_completeness auto
termination
  by (relation "measure (\<lambda>(b, channel, _, _). nat (int (length b) - channel))")
     (auto simp: getNumChannels_def addSample_def split: if_splits)

declare channel_loop.simps [simp del]

function sample_loop ::
  "('c, 'f) juce_dsp \<Rightarrow> real \<Rightarrow> int \<Rightarrow> int \<Rightarrow> int \<Rightarrow> 'f AntiAliasedVoice \<Rightarrow> AudioBuffer
     \<Rightarrow> ('f AntiAliasedVoice \<times> AudioBuffer) option" where
  "sample_loop J gain startSample numSamples sample v outputBuffer =
     (if sample < numSamples then
        (let (value, v1) = voice_sample J gain v in
         case channel_loop outputBuffer 0 (startSample + sample) value of
           None \<Rightarrow> None
         | Some b \<Rightarrow> sample_loop J gain startSample numSamples (sample + 1) v1 b)
      else Some (v, outputBuffer))"
  by pat_completeness auto
termination
  by (relation "measure (\<lambda>(_, _, _, numSamples, sample, _, _). nat (numSamples - sample))")
     auto

declare sample_loop.simps [simp del]

definition renderNextBlock ::
  "('c, 'f) juce_dsp \<Rightarrow> ParameterValues \<Rightarrow> AudioBuffer \<Rightarrow> int \<Rightarrow> int \<Rightarrow> 'f AntiAliasedVoice
     \<Rightarrow> ('f AntiAliasedVoice \<times> AudioBuffer) option" where
  "renderNextBlock J P outputBuffer startSample numSamples v =
     (if \<not> isVoiceActive v \<or> \<not> isActive v then Some (v, outputBuffer)
      else
        (let sampleRate = getSampleRate v in
         if sampleRate \<le> 0 then Some (v, outputBuffer)
         else
           (let v1 = block_refresh J P sampleRate v;
                gain = decibelsToGain J (gainParam P)
            in sample_loop J gain startSample numSamples 0 v1 outputBuffer)))"

text \<open>
  The values a voice computes in \<open>n\<close> rounds of the sample loop, in order: the value of
  line 110 in each round, the voice carried from one round to the next.
\<close>

fun computed_samples :: "('c, 'f) juce_dsp \<Rightarrow> real \<Rightarrow> nat \<Rightarrow> 'f AntiAliasedVoice \<Rightarrow> real list" where
  "computed_samples J gain 0 v = []"
| "computed_samples J gain (Suc n) v =
     fst (voice_sample J gain v) # computed_samples J gain n (snd (voice_sample J gain v))"

section \<open>AudioPluginAudioProcessor\<close>

text \<open>
  The processor: the voices its \<^verbatim>\<open>juce::Synthesiser\<close> holds, the cached sample rate and
  the state of the on-screen keyboard (of a type \<open>'k\<close> that JUCE owns). A MIDI buffer is
  the list of its events, of a type \<open>'e\<close>.
\<close>

record ('f, 'k) AudioPluginAudioProcessor =
  synth_voices :: "'f AntiAliasedVoice list"
  lastSampleRate :: real
  keyboardState :: 'k

text \<open>The constructor, lines 233-250: eight voices are added in a loop.\<close>

definition numVoices :: nat where
  "numVoices = 8"

definition processor_init :: "'f \<Rightarrow> 'k \<Rightarrow> ('f, 'k) AudioPluginAudioProcessor" where
  "processor_init flt kb =
     \<lparr>synth_voices = replicate numVoices (voice_init flt),
      lastSampleRate = 44100,
      keyboardState = kb\<rparr>"

text \<open>
  Modelled from the spec: \<^verbatim>\<open>juce::Synthesiser::allNotesOff\<close> is a JUCE method, not under
  src/. It stops every voice that plays on the given MIDI channel, and every voice when
  the channel is zero or less, by calling the voice's \<^verbatim>\<open>stopNote\<close> with velocity 1.
\<close>

definition allNotesOff :: "int \<Rightarrow> bool \<Rightarrow> 'f AntiAliasedVoice list \<Rightarrow> 'f AntiAliasedVoice list" where
  "allNotesOff midiChannel allowTailOff voices =
     map (\<lambda>v. if midiChannel \<le> 0 \<or> currentPlayingMidiChannel v = midiChannel
               then stopNote 1 allowTailOff v else v) voices"

text \<open>\<^verbatim>\<open>AudioPluginAudioProcessor::releaseResources\<close>, lines 328-331.\<close>

definition releaseResources ::
  "('f, 'k) AudioPluginAudioProcessor \<Rightarrow> ('f, 'k) AudioPluginAudioProcessor" where
  "releaseResources p = p\<lparr>synth_voices := allNotesOff 0 True (synth_voices p)\<rparr>"

text \<open>
  \<^verbatim>\<open>AudioPluginAudioProcessor::processBlock\<close>, lines 351-369. The two JUCE calls of the
  second branch, \<^verbatim>\<open>MidiKeyboardState::processNextMidiBuffer\<close> and
  \<^verbatim>\<open>Synthesiser::renderNextBlock\<close>, are the parameters \<open>processNextMidiBuffer\<close> and
  \<open>synth_renderNextBlock\<close>; the result is the processor, the audio buffer and the MIDI
  buffer after the call.
\<close>

definition processBlock ::
  "('k \<Rightarrow> 'e list \<Rightarrow> int \<Rightarrow> int \<Rightarrow> bool \<Rightarrow> 'k \<times> 'e list)
     \<Rightarrow> ('f AntiAliasedVoice list \<Rightarrow> AudioBuffer \<Rightarrow> 'e list \<Rightarrow> int \<Rightarrow> int
          \<Rightarrow> 'f AntiAliasedVoice list \<times> AudioBuffer)
     \<Rightarrow> ('f, 'k) AudioPluginAudioProcessor \<Rightarrow> AudioBuffer \<Rightarrow> 'e list
     \<Rightarrow> ('f, 'k) AudioPluginAudioProcessor \<times> AudioBuffer \<times> 'e list" where
  "processBlock processNextMidiBuffer synth_renderNextBlock p buffer midiMessages =
     (if lastSampleRate p \<le> 0 then (p, buffer_clear buffer, [])
      else
        (let (kb, midi1) =
               processNextMidiBuffer (keyboardState p) midiMessages 0 (getNumSamples buffer) True;
             p1 = p\<lparr>keyboardState := kb\<rparr>;
             buffer1 = buffer_clear buffer;
             (voices, buffer2) =
               synth_renderNextBlock (synth_voices p1) buffer1 midi1 0 (getNumSamples buffer1);
             p2 = p1\<lparr>synth_voices := voices\<rparr>
         in (p2, buffer2, [])))"

text \<open>
  A direct-form second-order filter, used below to run the theorems on a concrete
  filter: the coefficient set is a five-tuple, the filter holds its coefficients and two
  delayed values.
\<close>

record biquad =
  coefficients :: "real \<times> real \<times> real \<times> real \<times> real"
  z1 :: real
  z2 :: real

definition biquad_process :: "biquad \<Rightarrow> real \<Rightarrow> real \<times> biquad" where
  "biquad_process flt x =
     (case coefficients flt of (c0, c1, c2, c3, c4) \<Rightarrow>
        (let out = c0 * x + z1 flt
         in (out, flt\<lparr>z1 := c1 * x - c3 * out + z2 flt, z2 := c2 * x - c4 * out\<rparr>)))"

definition biquad_makeLowPass :: "real \<Rightarrow> real \<Rightarrow> real \<times> real \<times> real \<times> real \<times> real" where
  "biquad_makeLowPass sampleRate frequency =
     (let n = 1 / tan (pi * frequency / sampleRate);
          nSquared = n * n;
          c1 = 1 / (1 + sqrt 2 * n + nSquared)
      in (c1, c1 * 2, c1, c1 * 2 * (1 - nSquared), c1 * (1 - sqrt 2 * n + nSquared)))"

definition biquad_dsp :: "(real \<times> real \<times> real \<times> real \<times> real, biquad) juce_dsp" where
  "biquad_dsp =
     \<lparr>makeLowPass = biquad_makeLowPass,
      setCoefficients = (\<lambda>flt c. flt\<lparr>coefficients := c\<rparr>),
      filter_reset = (\<lambda>flt. flt\<lparr>z1 := 0, z2 := 0\<rparr>),
      processSingleSampleRaw = biquad_process,
      decibelsToGain = (\<lambda>dB. if dB > - 100 then 10 powr (dB * 0.05) else 0)\<rparr>"

definition biquad_init :: biquad where
  "biquad_init = \<lparr>coefficients = (1, 0, 0, 0, 0), z1 = 0, z2 = 0\<rparr>"

section \<open>Predicates and concrete inputs for the theorems\<close>

text \<open>The two cores of a pulse oscillator are tuned alike.\<close>

definition same_tuning :: "AntiAliasedPulseOscillator \<Rightarrow> bool" where
  "same_tuning p =
     (w (leadingEdge p) = w (trailingEdge p) \<and> beta (leadingEdge p) = beta (trailingEdge p))"


text \<open>The running state of both cores is zero.\<close>

definition oscillator_zeroed :: "AntiAliasedPulseOscillator \<Rightarrow> bool" where
  "oscillator_zeroed p =
     (phase (leadingEdge p) = 0 \<and> osc (leadingEdge p) = 0 \<and> previousInput (leadingEdge p) = 0
      \<and> phase (trailingEdge p) = 0 \<and> osc (trailingEdge p) = 0
      \<and> previousInput (trailingEdge p) = 0)"

text \<open>
  Buffer \<open>b'\<close> has the shape of \<open>b\<close>, and each of its samples is the sample of \<open>b\<close>
  at the same place plus \<open>f channel index\<close>.
\<close>

definition buffer_plus :: "AudioBuffer \<Rightarrow> AudioBuffer \<Rightarrow> (nat \<Rightarrow> nat \<Rightarrow> real) \<Rightarrow> bool" where
  "buffer_plus b b' f =
     (length b' = length b
      \<and> (\<forall>c < length b. length (b' ! c) = length (b ! c)
            \<and> (\<forall>j < length (b ! c). b' ! c ! j = b ! c ! j + f c j)))"

text \<open>
  Concrete inputs: the parameter defaults of \<^verbatim>\<open>createParameterLayout\<close>, a fresh voice
  that the synthesiser has given note 69, the same voice playing at a sample rate of
  zero, and pass-through stand-ins for the two JUCE calls of \<open>processBlock\<close>.
\<close>

definition example_params :: ParameterValues where
  "example_params = \<lparr>gainParam = - 12, pulseWidthParam = 0.5, filterCutoffParam = 0.5\<rparr>"

definition example_voice :: "biquad AntiAliasedVoice" where
  "example_voice = (voice_init biquad_init)\<lparr>currentlyPlayingNote := 69, currentPlayingMidiChannel := 1\<rparr>"


definition unity_params :: ParameterValues where
  "unity_params = \<lparr>gainParam = 0, pulseWidthParam = 0.5, filterCutoffParam = 0.5\<rparr>"

definition sounding_voice :: "biquad AntiAliasedVoice" where
  "sounding_voice =
     example_voice\<lparr>getSampleRate := 1760, currentLevel := 1, currentFrequency := 440,
       isActive := True, currentSampleRate := 1760, lastFilterCutoff := 0.5\<rparr>"

definition keep_midi :: "unit \<Rightarrow> nat list \<Rightarrow> int \<Rightarrow> int \<Rightarrow> bool \<Rightarrow> unit \<times> nat list" where
  "keep_midi kb midi startSample numSamples inject = (kb, midi)"

definition keep_voices ::
  "biquad AntiAliasedVoice list \<Rightarrow> AudioBuffer \<Rightarrow> nat list \<Rightarrow> int \<Rightarrow> int
     \<Rightarrow> biquad AntiAliasedVoice list \<times> AudioBuffer" where
  "keep_voices voices b midi startSample numSamples = (voices, b)"

section \<open>Facts about the JUCE helpers\<close>



section \<open>The saw core: one sample, frequency and reset\<close>

lemma saw_getNextSample_explicit:
  "saw_getNextSample s =
     ((hfCompA0 * (0.5 * (osc s + sin (twoPi * (phase s + osc s * beta s))))
         + hfCompA1 * previousInput s - (0.376 - 0.752 * w s))
        / jmax minNorm (1 - 2 * w s),
      \<lparr>phase = (if phase s + w s \<ge> 1 then phase s + w s - 1 else phase s + w s),
       osc = 0.5 * (osc s + sin (twoPi * (phase s + osc s * beta s))),
       previousInput = 0.5 * (osc s + sin (twoPi * (phase s + osc s * beta s))),
       w = w s,
       beta = beta s\<rparr>)"
  by (cases s) (simp add: saw_getNextSample_def Let_def)

lemma saw_getNextSample_w [simp]: "w (snd (saw_getNextSample s)) = w s"
  and saw_getNextSample_beta [simp]: "beta (snd (saw_getNextSample s)) = beta s"
  by (simp_all add: saw_getNextSample_def Let_def)


lemma saw_setFrequency_w_beta:
  "w (saw_setFrequency f sr s) = (if sr \<le> 0 then w s else jlimit 0 0.49 (f / sr))"
  "beta (saw_setFrequency f sr s) =
     (if sr \<le> 0 then beta s
      else 13 * (0.5 - jlimit 0 0.49 (f / sr)) * (0.5 - jlimit 0 0.49 (f / sr))
             * (0.5 - jlimit 0 0.49 (f / sr)) * (0.5 - jlimit 0 0.49 (f / sr)))"
  "phase (saw_setFrequency f sr s) = phase s"
  by (simp_all add: saw_setFrequency_def Let_def)

lemma saw_reset_fields:
  "phase (saw_reset s) = 0" "osc (saw_reset s) = 0" "previousInput (saw_reset s) = 0"
  "w (saw_reset s) = w s" "beta (saw_reset s) = beta s"
  by (simp_all add: saw_reset_def)

text \<open>
  C1. For every state of the saw core, \<open>getNextSample\<close> forms the feedback phase
  \<open>phase + osc * beta\<close>, takes the sine of \<open>2 * pi\<close> times it, halves the sum of the old
  \<open>osc\<close> and that sine to get the new \<open>osc\<close>, returns
  \<open>(2.5 * new osc - 1.5 * previousInput - (0.376 - 0.752 * w)) / max 0.001 (1 - 2 * w)\<close>,
  stores the new \<open>osc\<close> in \<open>previousInput\<close>, advances \<open>phase\<close> by \<open>w\<close> with one
  subtraction of 1 when the sum reaches 1, and leaves \<open>w\<close> and \<open>beta\<close> as they were.
\<close>

theorem saw_getNextSample_steps:
  "saw_getNextSample s =
     ((2.5 * (0.5 * (osc s + sin (2 * pi * (phase s + osc s * beta s))))
         - 1.5 * previousInput s - (0.376 - 0.752 * w s))
        / max 0.001 (1 - 2 * w s),
      \<lparr>phase = (if phase s + w s \<ge> 1 then phase s + w s - 1 else phase s + w s),
       osc = 0.5 * (osc s + sin (2 * pi * (phase s + osc s * beta s))),
       previousInput = 0.5 * (osc s + sin (2 * pi * (phase s + osc s * beta s))),
       w = w s,
       beta = beta s\<rparr>)"
  by (cases s)
     (simp add: saw_getNextSample_def Let_def hfCompA0_def hfCompA1_def minNorm_def
        twoPi_def jmax_def max_def)



text \<open>
  C5, as amended. For every state of the saw core, \<open>reset\<close> sets \<open>phase\<close>, \<open>osc\<close> and
  \<open>previousInput\<close> to zero and leaves \<open>w\<close> and \<open>beta\<close> as they were.
\<close>

theorem saw_reset_keeps_frequency:
  "saw_reset s = \<lparr>phase = 0, osc = 0, previousInput = 0, w = w s, beta = beta s\<rparr>"
  by (cases s) (simp add: saw_reset_def)

text \<open>
  As first stated, C5 has \<open>w\<close>, and with it \<open>beta\<close>, zero after \<open>reset\<close>. A core tuned
  to a quarter of the sample rate and then reset still has \<open>w = 1 / 4\<close> and
  \<open>beta = 13 / 256\<close>.
\<close>

theorem saw_reset_w_counterexample:
  "w (saw_reset (saw_setFrequency 11025 44100 saw_init)) = 1 / 4
   \<and> beta (saw_reset (saw_setFrequency 11025 44100 saw_init)) = 13 / 256
   \<and> w (saw_reset (saw_setFrequency 11025 44100 saw_init)) \<noteq> 0"
  by (simp add: saw_reset_def saw_setFrequency_def saw_init_def jlimit_def Let_def)

section \<open>The pulse oscillator\<close>

lemma pulse_setFrequency_fields:
  "leadingEdge (pulse_setFrequency f sr p) = saw_setFrequency f sr (leadingEdge p)"
  "trailingEdge (pulse_setFrequency f sr p) = saw_setFrequency f sr (trailingEdge p)"
  "pulseWidth (pulse_setFrequency f sr p) = pulseWidth p"
  by (simp_all add: pulse_setFrequency_def Let_def)

lemma pulse_reset_fields:
  "leadingEdge (pulse_reset p) = saw_reset (leadingEdge p)"
  "trailingEdge (pulse_reset p) = saw_reset (trailingEdge p)"
  "pulseWidth (pulse_reset p) = pulseWidth p"
  by (simp_all add: pulse_reset_def Let_def)

lemma pulse_getNextSample_as_saw:
  "pulse_getNextSample p =
     (jlimit (- 1) 1
        (fst (saw_getNextSample (leadingEdge p))
           - fst (saw_getNextSample ((trailingEdge p)
               \<lparr>phase := shiftedPhase_loop
                   (phase (snd (saw_getNextSample (leadingEdge p))) + pulseWidth p)\<rparr>))),
      \<lparr>leadingEdge = snd (saw_getNextSample (leadingEdge p)),
       trailingEdge = snd (saw_getNextSample ((trailingEdge p)
               \<lparr>phase := shiftedPhase_loop
                   (phase (snd (saw_getNextSample (leadingEdge p))) + pulseWidth p)\<rparr>)),
       pulseWidth = pulseWidth p\<rparr>)"
proof -
  obtain L le where lead: "saw_getNextSample (leadingEdge p) = (L, le)"
    by (cases "saw_getNextSample (leadingEdge p)")
  show ?thesis
    unfolding pulse_getNextSample_def lead
    by (cases p) (simp add: saw_getNextSample_explicit Let_def)
qed


lemma pulse_getNextSample_w_beta:
  "w (leadingEdge (snd (pulse_getNextSample p))) = w (leadingEdge p)"
  "beta (leadingEdge (snd (pulse_getNextSample p))) = beta (leadingEdge p)"
  "w (trailingEdge (snd (pulse_getNextSample p))) = w (trailingEdge p)"
  "beta (trailingEdge (snd (pulse_getNextSample p))) = beta (trailingEdge p)"
  "pulseWidth (snd (pulse_getNextSample p)) = pulseWidth p"
  by (simp_all add: pulse_getNextSample_as_saw)

subsection \<open>Both cores keep one tuning\<close>

lemma same_tuning_call: "same_tuning p \<Longrightarrow> same_tuning (pulse_call_apply c p)"
  by (cases c)
     (simp_all add: same_tuning_def pulse_setFrequency_fields pulse_reset_fields
        saw_setFrequency_w_beta pulse_setPulseWidth_def saw_reset_def pulse_getNextSample_w_beta)

lemma same_tuning_calls: "same_tuning p \<Longrightarrow> same_tuning (pulse_calls cs p)"
  by (induction cs arbitrary: p) (simp_all add: same_tuning_call)

lemma same_tuning_init: "same_tuning pulse_init"
  by (simp add: same_tuning_def pulse_init_def)

text \<open>
  C9. After every list of \<open>setFrequency\<close>, \<open>setPulseWidth\<close>, \<open>reset\<close> and
  \<open>getNextSample\<close> calls made on a fresh pulse oscillator, the leading and the trailing
  core hold the same \<open>w\<close> and the same \<open>beta\<close>: the trailing core is the leading core
  but for its \<open>phase\<close>, \<open>osc\<close> and \<open>previousInput\<close>.
\<close>

theorem pulse_cores_same_w_beta:
  "w (leadingEdge (pulse_calls cs pulse_init)) = w (trailingEdge (pulse_calls cs pulse_init))
   \<and> beta (leadingEdge (pulse_calls cs pulse_init)) = beta (trailingEdge (pulse_calls cs pulse_init))
   \<and> trailingEdge (pulse_calls cs pulse_init) =
       (leadingEdge (pulse_calls cs pulse_init))
         \<lparr>phase := phase (trailingEdge (pulse_calls cs pulse_init)),
          osc := osc (trailingEdge (pulse_calls cs pulse_init)),
          previousInput := previousInput (trailingEdge (pulse_calls cs pulse_init))\<rparr>"
proof -
  have "same_tuning (pulse_calls cs pulse_init)"
    by (rule same_tuning_calls [OF same_tuning_init])
  then show ?thesis
    by (cases "trailingEdge (pulse_calls cs pulse_init)")
       (simp add: same_tuning_def)
qed

subsection \<open>The phase wrap is the fractional part\<close>








section \<open>The voice: starting and stopping a note\<close>



lemma stopNote_fields:
  "stopNote velocity allowTailOff v =
     v\<lparr>currentlyPlayingNote := - 1, currentPlayingMidiChannel := 0,
       pulseOsc := pulse_reset (pulseOsc v), isActive := False, currentLevel := 0\<rparr>"
  by (simp add: stopNote_def clearCurrentNote_def Let_def)

lemma stopNote_stopped:
  "\<not> isActive (stopNote velocity allowTailOff v)
   \<and> \<not> voice_active (stopNote velocity allowTailOff v)
   \<and> oscillator_zeroed (pulseOsc (stopNote velocity allowTailOff v))
   \<and> currentLevel (stopNote velocity allowTailOff v) = 0"
  by (simp add: stopNote_fields voice_active_def oscillator_zeroed_def pulse_reset_fields
        saw_reset_fields)

text \<open>
  C8. For every voice, \<open>stopNote\<close> clears the note, resets the pulse oscillator, clears
  the flag \<open>isActive\<close> and sets the level to zero, with the same result for either
  value of \<open>allowTailOff\<close>: afterwards the voice is inactive, and \<open>phase\<close>, \<open>osc\<close> and
  \<open>previousInput\<close> of both cores are zero. The processor is built with eight voices,
  \<open>releaseResources\<close> keeps their number, and after it every voice is inactive with
  that oscillator state zeroed.
\<close>

theorem stopNote_spec:
  "stopNote velocity allowTailOff v =
     v\<lparr>currentlyPlayingNote := - 1, currentPlayingMidiChannel := 0,
       pulseOsc := pulse_reset (pulseOsc v), isActive := False, currentLevel := 0\<rparr>
   \<and> stopNote velocity True v = stopNote velocity False v
   \<and> \<not> isActive (stopNote velocity allowTailOff v)
   \<and> \<not> voice_active (stopNote velocity allowTailOff v)
   \<and> oscillator_zeroed (pulseOsc (stopNote velocity allowTailOff v))
   \<and> currentLevel (stopNote velocity allowTailOff v) = 0
   \<and> length (synth_voices (processor_init flt kb)) = 8
   \<and> length (synth_voices (releaseResources p)) = length (synth_voices p)
   \<and> (\<forall>u \<in> set (synth_voices (releaseResources p)).
         \<not> isActive u \<and> \<not> voice_active u \<and> oscillator_zeroed (pulseOsc u)
         \<and> currentLevel u = 0)"
proof -
  have "\<forall>u \<in> set (synth_voices (releaseResources p)).
         \<not> isActive u \<and> \<not> voice_active u \<and> oscillator_zeroed (pulseOsc u)
         \<and> currentLevel u = 0"
    using stopNote_stopped by (auto simp: releaseResources_def allNotesOff_def)
  moreover have "length (synth_voices (releaseResources p)) = length (synth_voices p)"
    by (simp add: releaseResources_def allNotesOff_def)
  moreover have "length (synth_voices (processor_init flt kb)) = 8"
    by (simp add: processor_init_def numVoices_def)
  ultimately show ?thesis
    using stopNote_stopped [of velocity allowTailOff v]
    by (simp add: stopNote_fields)
qed

text \<open>The theorem on a processor whose one voice is sounding note 69.\<close>

theorem stopNote_spec_witness:
  "stopNote 1 True (startNote biquad_dsp example_params 69 1 example_voice)
     \<in> set (synth_voices (releaseResources
          ((processor_init biquad_init ())
             \<lparr>synth_voices := [startNote biquad_dsp example_params 69 1 example_voice]\<rparr>)))
   \<and> voice_active (startNote biquad_dsp example_params 69 1 example_voice)
   \<and> \<not> voice_active (stopNote 1 True (startNote biquad_dsp example_params 69 1 example_voice))
   \<and> oscillator_zeroed
        (pulseOsc (stopNote 1 True (startNote biquad_dsp example_params 69 1 example_voice)))"
proof -
  let ?p = "(processor_init biquad_init ())
             \<lparr>synth_voices := [startNote biquad_dsp example_params 69 1 example_voice]\<rparr>"
  have mem: "stopNote 1 True (startNote biquad_dsp example_params 69 1 example_voice)
     \<in> set (synth_voices (releaseResources ?p))"
    by (simp add: releaseResources_def allNotesOff_def)
  have act: "voice_active (startNote biquad_dsp example_params 69 1 example_voice)"
    by (simp add: startNote_def example_voice_def voice_init_def voice_active_def
          isVoiceActive_def Let_def updateFilterCoefficients_def)
  show ?thesis
    using stopNote_spec [of 1 True "startNote biquad_dsp example_params 69 1 example_voice"
                           biquad_init "()" ?p] mem act
    by blast
qed

section \<open>The voice: rendering a block\<close>




subsection \<open>What a block adds to the buffer\<close>

lemma buffer_plus_refl: "buffer_plus b b (\<lambda>c j. 0)"
  by (simp add: buffer_plus_def)

lemma buffer_plus_trans:
  "buffer_plus b b1 f \<Longrightarrow> buffer_plus b1 b2 g \<Longrightarrow> buffer_plus b b2 (\<lambda>c j. f c j + g c j)"
  by (simp add: buffer_plus_def)

lemma buffer_plus_cong:
  "buffer_plus b b' f \<Longrightarrow> (\<And>c j. c < length b \<Longrightarrow> j < length (b ! c) \<Longrightarrow> f c j = g c j)
     \<Longrightarrow> buffer_plus b b' g"
  by (simp add: buffer_plus_def)

lemma addSample_plus:
  assumes "addSample b ch i x = Some b'"
  shows "buffer_plus b b' (\<lambda>c j. if int c = ch \<and> int j = i then x else 0)"
proof -
  from assms have rng: "0 \<le> ch" "ch < int (length b)" "0 \<le> i" "i < int (length (b ! nat ch))"
    and b': "b' = b[nat ch := (b ! nat ch)[nat i := b ! nat ch ! nat i + x]]"
    by (auto simp: addSample_def split: if_splits)
  show ?thesis
    unfolding buffer_plus_def b'
    using rng by (auto simp: nth_list_update)
qed

lemma channel_loop_plus:
  "channel_loop b ch i x = Some b' \<Longrightarrow> 0 \<le> ch
     \<Longrightarrow> buffer_plus b b' (\<lambda>c j. if ch \<le> int c \<and> int j = i then x else 0)"
proof (induction b ch i x arbitrary: b' rule: channel_loop.induct)
  case (1 b ch i x)
  show ?case
  proof (cases "ch < getNumChannels b")
    case False
    then have "b' = b"
      using "1.prems"(1) by (subst (asm) channel_loop.simps) simp
    moreover have "buffer_plus b b (\<lambda>c j. if ch \<le> int c \<and> int j = i then x else 0)"
      using False by (simp add: buffer_plus_def getNumChannels_def)
    ultimately show ?thesis
      by simp
  next
    case True
    then obtain b1 where add: "addSample b ch i x = Some b1"
      and rest: "channel_loop b1 (ch + 1) i x = Some b'"
      using "1.prems"(1) by (subst (asm) channel_loop.simps) (simp split: option.splits)
    have p1: "buffer_plus b b1 (\<lambda>c j. if int c = ch \<and> int j = i then x else 0)"
      by (rule addSample_plus [OF add])
    have p2: "buffer_plus b1 b' (\<lambda>c j. if ch + 1 \<le> int c \<and> int j = i then x else 0)"
      using "1.IH" [OF True add rest] "1.prems"(2) by simp
    show ?thesis
      by (rule buffer_plus_cong [OF buffer_plus_trans [OF p1 p2]]) auto
  qed
qed

lemma channel_loop_total:
  "0 \<le> ch \<Longrightarrow> 0 \<le> i \<Longrightarrow> (\<And>c. c < length b \<Longrightarrow> i < int (length (b ! c)))
     \<Longrightarrow> \<exists>b'. channel_loop b ch i x = Some b'"
proof (induction b ch i x rule: channel_loop.induct)
  case (1 b ch i x)
  show ?case
  proof (cases "ch < getNumChannels b")
    case False
    then show ?thesis
      by (subst channel_loop.simps) simp
  next
    case True
    then have "nat ch < length b"
      using "1.prems"(1) by (simp add: getNumChannels_def)
    then have "i < int (length (b ! nat ch))"
      by (rule "1.prems"(3))
    then obtain b1 where add: "addSample b ch i x = Some b1"
      using True "1.prems"(1,2) by (simp add: addSample_def getNumChannels_def)
    have shape: "buffer_plus b b1 (\<lambda>c j. if int c = ch \<and> int j = i then x else 0)"
      by (rule addSample_plus [OF add])
    have "\<exists>b'. channel_loop b1 (ch + 1) i x = Some b'"
    proof (rule "1.IH" [OF True add])
      show "0 \<le> ch + 1" using "1.prems"(1) by simp
      show "0 \<le> i" by (rule "1.prems"(2))
      fix c assume "c < length b1"
      then show "i < int (length (b1 ! c))"
        using shape "1.prems"(3) [of c] by (simp add: buffer_plus_def)
    qed
    then show ?thesis
      using True add by (subst channel_loop.simps) simp
  qed
qed

lemma sample_loop_plus:
  "sample_loop J g start n k v b = Some (v', b') \<Longrightarrow> 0 \<le> k
     \<Longrightarrow> buffer_plus b b'
          (\<lambda>c j. if start + k \<le> int j \<and> int j < start + n
                  then computed_samples J g (nat (n - k)) v ! nat (int j - start - k) else 0)"
proof (induction J g start n k v b arbitrary: v' b' rule: sample_loop.induct)
  case (1 J g start n k v b)
  show ?case
  proof (cases "k < n")
    case False
    then have "b' = b"
      using "1.prems"(1) by (subst (asm) sample_loop.simps) simp
    moreover have "buffer_plus b b
          (\<lambda>c j. if start + k \<le> int j \<and> int j < start + n
                  then computed_samples J g (nat (n - k)) v ! nat (int j - start - k) else 0)"
      using False by (simp add: buffer_plus_def)
    ultimately show ?thesis
      by simp
  next
    case True
    obtain x v1 where vs: "voice_sample J g v = (x, v1)"
      by (cases "voice_sample J g v")
    obtain b1 where ch: "channel_loop b 0 (start + k) x = Some b1"
      and rest: "sample_loop J g start n (k + 1) v1 b1 = Some (v', b')"
      using "1.prems"(1) True vs
      by (subst (asm) sample_loop.simps) (simp split: option.splits)
    have p1: "buffer_plus b b1 (\<lambda>c j. if 0 \<le> int c \<and> int j = start + k then x else 0)"
      by (rule channel_loop_plus [OF ch]) simp
    have p2: "buffer_plus b1 b'
          (\<lambda>c j. if start + (k + 1) \<le> int j \<and> int j < start + n
                  then computed_samples J g (nat (n - (k + 1))) v1 ! nat (int j - start - (k + 1))
                  else 0)"
      using "1.IH" [OF True vs [symmetric] refl ch rest] "1.prems"(2) by simp
    have count: "nat (n - k) = Suc (nat (n - (k + 1)))"
      using True by simp
    have cs: "computed_samples J g (nat (n - k)) v
                = x # computed_samples J g (nat (n - (k + 1))) v1"
      unfolding count using vs by simp
    show ?thesis
    proof (rule buffer_plus_cong [OF buffer_plus_trans [OF p1 p2]])
      fix c j
      assume "c < length b" "j < length (b ! c)"
      consider "int j = start + k" | "start + (k + 1) \<le> int j" | "int j < start + k"
        by linarith
      then show "(if 0 \<le> int c \<and> int j = start + k then x else 0)
                 + (if start + (k + 1) \<le> int j \<and> int j < start + n
                    then computed_samples J g (nat (n - (k + 1))) v1
                           ! nat (int j - start - (k + 1))
                    else 0)
               = (if start + k \<le> int j \<and> int j < start + n
                  then computed_samples J g (nat (n - k)) v ! nat (int j - start - k) else 0)"
      proof cases
        case 1
        then show ?thesis
          using True by (simp add: cs)
      next
        case 2
        then have "nat (int j - start - k) = Suc (nat (int j - start - (k + 1)))"
          by simp
        then show ?thesis
          using 2 by (simp add: cs)
      next
        case 3
        then show ?thesis
          by simp
      qed
    qed
  qed
qed

lemma sample_loop_total:
  "0 \<le> start \<Longrightarrow> 0 \<le> k \<Longrightarrow> (\<And>c. c < length b \<Longrightarrow> start + n \<le> int (length (b ! c)))
     \<Longrightarrow> \<exists>r. sample_loop J g start n k v b = Some r"
proof (induction J g start n k v b rule: sample_loop.induct)
  case (1 J g start n k v b)
  show ?case
  proof (cases "k < n")
    case False
    then show ?thesis
      by (subst sample_loop.simps) simp
  next
    case True
    obtain x v1 where vs: "voice_sample J g v = (x, v1)"
      by (cases "voice_sample J g v")
    have "\<exists>b1. channel_loop b 0 (start + k) x = Some b1"
    proof (rule channel_loop_total)
      show "(0::int) \<le> 0" by simp
      show "0 \<le> start + k" using "1.prems"(1,2) by simp
      fix c assume "c < length b"
      then show "start + k < int (length (b ! c))"
        using "1.prems"(3) [of c] True by simp
    qed
    then obtain b1 where ch: "channel_loop b 0 (start + k) x = Some b1"
      by blast
    have shape: "buffer_plus b b1 (\<lambda>c j. if 0 \<le> int c \<and> int j = start + k then x else 0)"
      by (rule channel_loop_plus [OF ch]) simp
    have "\<exists>r. sample_loop J g start n (k + 1) v1 b1 = Some r"
    proof (rule "1.IH" [OF True vs [symmetric] refl ch])
      show "0 \<le> start" by (rule "1.prems"(1))
      show "0 \<le> k + 1" using "1.prems"(2) by simp
      fix c assume "c < length b1"
      then show "start + n \<le> int (length (b1 ! c))"
        using shape "1.prems"(3) [of c] by (simp add: buffer_plus_def)
    qed
    then show ?thesis
      using True vs ch by (subst sample_loop.simps) simp
  qed
qed

text \<open>
  C10. For every voice, buffer, \<open>startSample\<close> and \<open>numSamples\<close>: a call of
  \<open>renderNextBlock\<close> has a result whenever the samples from \<open>startSample\<close> up to
  \<open>startSample + numSamples\<close> lie inside every channel of the buffer. The buffer of the
  result has the shape of the buffer given. Each sample at an index \<open>i\<close> with
  \<open>startSample \<le> i < startSample + numSamples\<close> is, for an active voice with a positive
  sample rate, its value before plus the value the voice computed in round
  \<open>i - startSample\<close> of its loop, the same in every channel; every other sample is as
  before. For an inactive voice, or one with a sample rate of zero or less, the
  buffer and the voice are as before.
\<close>

theorem renderNextBlock_frame:
  "case renderNextBlock J P outputBuffer startSample numSamples v of
     None \<Rightarrow>
       \<not> (0 \<le> startSample
          \<and> (\<forall>c \<in> set outputBuffer. startSample + numSamples \<le> int (length c)))
   | Some (v', b') \<Rightarrow>
       length b' = length outputBuffer
       \<and> (\<forall>c < length outputBuffer.
             length (b' ! c) = length (outputBuffer ! c)
             \<and> (\<forall>i < length (outputBuffer ! c).
                   b' ! c ! i =
                     outputBuffer ! c ! i
                       + (if voice_active v \<and> 0 < getSampleRate v
                             \<and> startSample \<le> int i \<and> int i < startSample + numSamples
                          then computed_samples J (decibelsToGain J (gainParam P))
                                 (nat numSamples) (block_refresh J P (getSampleRate v) v)
                                 ! nat (int i - startSample)
                          else 0)))
       \<and> (\<not> voice_active v \<or> getSampleRate v \<le> 0 \<longrightarrow> b' = outputBuffer \<and> v' = v)"
proof (cases "voice_active v \<and> 0 < getSampleRate v")
  case False
  then have "renderNextBlock J P outputBuffer startSample numSamples v = Some (v, outputBuffer)"
    by (auto simp: renderNextBlock_def voice_active_def Let_def)
  then show ?thesis
    using False by auto
next
  case True
  let ?g = "decibelsToGain J (gainParam P)"
  let ?v1 = "block_refresh J P (getSampleRate v) v"
  have run: "renderNextBlock J P outputBuffer startSample numSamples v
               = sample_loop J ?g startSample numSamples 0 ?v1 outputBuffer"
    using True by (simp add: renderNextBlock_def voice_active_def Let_def)
  show ?thesis
  proof (cases "sample_loop J ?g startSample numSamples 0 ?v1 outputBuffer")
    case None
    have "\<not> (0 \<le> startSample
          \<and> (\<forall>c \<in> set outputBuffer. startSample + numSamples \<le> int (length c)))"
    proof
      assume inside: "0 \<le> startSample
          \<and> (\<forall>c \<in> set outputBuffer. startSample + numSamples \<le> int (length c))"
      have "\<exists>r. sample_loop J ?g startSample numSamples 0 ?v1 outputBuffer = Some r"
      proof (rule sample_loop_total)
        show "0 \<le> startSample" using inside by simp
        show "(0::int) \<le> 0" by simp
        fix c assume "c < length outputBuffer"
        then show "startSample + numSamples \<le> int (length (outputBuffer ! c))"
          using inside by simp
      qed
      then show False
        using None by simp
    qed
    then show ?thesis
      using run None by simp
  next
    case (Some r)
    obtain v' b' where r: "r = (v', b')"
      by (cases r)
    have "buffer_plus outputBuffer b'
          (\<lambda>c j. if startSample + 0 \<le> int j \<and> int j < startSample + numSamples
                  then computed_samples J ?g (nat (numSamples - 0)) ?v1
                         ! nat (int j - startSample - 0) else 0)"
      by (rule sample_loop_plus) (use Some r in simp_all)
    then show ?thesis
      using run Some r True by (simp add: buffer_plus_def)
  qed
qed

subsection \<open>One rendered sample, computed\<close>

lemma sin_three_quarters: "sin (twoPi * 3 / 4) = - 1"
proof -
  have "twoPi * 3 / 4 = 3 / 2 * pi"
    by (simp add: twoPi_def)
  then show ?thesis
    by (simp only: sin_3over2_pi)
qed

lemma sounding_refresh:
  "block_refresh biquad_dsp unity_params 1760 sounding_voice =
     sounding_voice\<lparr>pulseOsc :=
       \<lparr>leadingEdge = \<lparr>phase = 0, osc = 0, previousInput = 0, w = 1 / 4, beta = 13 / 256\<rparr>,
        trailingEdge = \<lparr>phase = 0, osc = 0, previousInput = 0, w = 1 / 4, beta = 13 / 256\<rparr>,
        pulseWidth = 1 / 2\<rparr>\<rparr>"
  by (simp add: block_refresh_def sounding_voice_def example_voice_def voice_init_def
        unity_params_def pulse_setFrequency_def pulse_setPulseWidth_def saw_setFrequency_def
        pulse_init_def saw_init_def jlimit_def Let_def)

lemma sounding_saw:
  "saw_getNextSample \<lparr>phase = 0, osc = 0, previousInput = 0, w = 1 / 4, beta = 13 / 256\<rparr>
     = (- 0.376, \<lparr>phase = 1 / 4, osc = 0, previousInput = 0, w = 1 / 4, beta = 13 / 256\<rparr>)"
  by (simp add: saw_getNextSample_explicit hfCompA0_def hfCompA1_def minNorm_def jmax_def)

lemma sounding_loop: "shiftedPhase_loop (3 / 4) = 3 / 4"
  by (subst shiftedPhase_loop.simps) simp

lemma sounding_trailing:
  "saw_getNextSample \<lparr>phase = 3 / 4, osc = 0, previousInput = 0, w = 1 / 4, beta = 13 / 256\<rparr>
     = (- 2.876, \<lparr>phase = 0, osc = - 1 / 2, previousInput = - 1 / 2, w = 1 / 4, beta = 13 / 256\<rparr>)"
  by (simp add: saw_getNextSample_explicit hfCompA0_def hfCompA1_def minNorm_def jmax_def
        sin_three_quarters)

lemma sounding_pulse:
  "fst (pulse_getNextSample
     \<lparr>leadingEdge = \<lparr>phase = 0, osc = 0, previousInput = 0, w = 1 / 4, beta = 13 / 256\<rparr>,
      trailingEdge = \<lparr>phase = 0, osc = 0, previousInput = 0, w = 1 / 4, beta = 13 / 256\<rparr>,
      pulseWidth = 1 / 2\<rparr>) = 1"
  by (simp add: pulse_getNextSample_as_saw sounding_saw sounding_loop sounding_trailing
        jlimit_def)

lemma sounding_sample:
  "fst (voice_sample biquad_dsp (decibelsToGain biquad_dsp (gainParam unity_params))
     (block_refresh biquad_dsp unity_params (getSampleRate sounding_voice) sounding_voice)) = 1"
proof -
  have rate: "getSampleRate sounding_voice = 1760"
    by (simp add: sounding_voice_def)
  show ?thesis
    unfolding rate sounding_refresh
    by (simp add: voice_sample_def sounding_pulse case_prod_beta biquad_dsp_def
          unity_params_def sounding_voice_def example_voice_def voice_init_def
          biquad_process_def biquad_init_def)
qed

text \<open>
  The theorem on a voice that sounds 440 Hz at 1760 samples per second through a
  pass-through filter at unit gain, where the first pulse sample is 1: one sample is
  rendered at index 1 of a buffer of two channels and three samples. An idle voice
  leaves the same buffer as it was.
\<close>

theorem renderNextBlock_frame_witness:
  "voice_active sounding_voice \<and> 0 < getSampleRate sounding_voice
   \<and> (0::int) \<le> 1 \<and> (1::int) + 1 \<le> int (length [1, 2, 3 :: real])
   \<and> (1::int) + 1 \<le> int (length [4, 5, 6 :: real])
   \<and> map_option snd
        (renderNextBlock biquad_dsp unity_params [[1, 2, 3], [4, 5, 6]] 1 1 sounding_voice)
       = Some [[1, 3, 3], [4, 6, 6]]
   \<and> \<not> voice_active example_voice
   \<and> renderNextBlock biquad_dsp unity_params [[1, 2, 3], [4, 5, 6]] 1 1 example_voice
       = Some (example_voice, [[1, 2, 3], [4, 5, 6]])"
proof -
  let ?buf = "[[1, 2, 3], [4, 5, 6 :: real]]"
  have act: "voice_active sounding_voice" "0 < getSampleRate sounding_voice"
    by (simp_all add: sounding_voice_def example_voice_def voice_init_def voice_active_def
          isVoiceActive_def)
  have idle: "\<not> voice_active example_voice"
    by (simp add: example_voice_def voice_init_def voice_active_def)
  have inside: "0 \<le> (1::int) \<and> (\<forall>c \<in> set ?buf. (1::int) + 1 \<le> int (length c))"
    by simp
  note sounding = renderNextBlock_frame
      [where J = biquad_dsp and P = unity_params and outputBuffer = ?buf and startSample = 1
         and numSamples = 1 and v = sounding_voice]
  note silent = renderNextBlock_frame
      [where J = biquad_dsp and P = unity_params and outputBuffer = ?buf and startSample = 1
         and numSamples = 1 and v = example_voice]
  obtain v' b' where some:
      "renderNextBlock biquad_dsp unity_params ?buf 1 1 sounding_voice = Some (v', b')"
    using sounding inside
    by (cases "renderNextBlock biquad_dsp unity_params ?buf 1 1 sounding_voice") auto
  have len: "length b' = 2"
    using sounding some by simp
  have entry: "length (b' ! c) = 3
      \<and> b' ! c ! i = ?buf ! c ! i + (if i = 1 then 1 else 0)" if "c < 2" "i < 3" for c i
  proof -
    have c: "c < length ?buf"
      using that(1) by simp
    have "c = 0 \<or> c = 1"
      using that(1) by linarith
    then have width: "length (?buf ! c) = 3"
      by auto
    have i: "i < length (?buf ! c)"
      using width that(2) by simp
    have "length (b' ! c) = length (?buf ! c)
      \<and> b' ! c ! i = ?buf ! c ! i
           + (if voice_active sounding_voice \<and> 0 < getSampleRate sounding_voice
                 \<and> 1 \<le> int i \<and> int i < 1 + 1
              then computed_samples biquad_dsp (decibelsToGain biquad_dsp (gainParam unity_params))
                     (nat 1)
                     (block_refresh biquad_dsp unity_params (getSampleRate sounding_voice)
                        sounding_voice)
                     ! nat (int i - 1)
              else 0)"
      using sounding c i unfolding some by simp
    moreover note width
    moreover have "(1 \<le> int i \<and> int i < 1 + 1) = (i = 1)"
      by auto
    ultimately show ?thesis
      using act by (simp add: sounding_sample)
  qed
  have row0: "b' ! 0 = [1, 3, 3]"
  proof (rule nth_equalityI)
    show "length (b' ! 0) = length [1, 3, 3 :: real]"
      using entry [of 0 0] by simp
    fix i assume "i < length (b' ! 0)"
    then have "i < 3"
      using entry [of 0 0] by simp
    then consider "i = 0" | "i = 1" | "i = 2"
      by linarith
    then show "b' ! 0 ! i = [1, 3, 3] ! i"
      using entry [of 0 0] entry [of 0 1] entry [of 0 2] by cases simp_all
  qed
  have row1: "b' ! 1 = [4, 6, 6]"
  proof (rule nth_equalityI)
    show "length (b' ! 1) = length [4, 6, 6 :: real]"
      using entry [of 1 0] by simp
    fix i assume "i < length (b' ! 1)"
    then have "i < 3"
      using entry [of 1 0] by simp
    then consider "i = 0" | "i = 1" | "i = 2"
      by linarith
    then show "b' ! 1 ! i = [4, 6, 6] ! i"
      using entry [of 1 0] entry [of 1 1] entry [of 1 2] by cases simp_all
  qed
  have b': "b' = [[1, 3, 3], [4, 6, 6]]"
  proof (rule nth_equalityI)
    show "length b' = length [[1, 3, 3], [4, 6, 6 :: real]]"
      using len by simp
    fix c assume "c < length b'"
    then consider "c = 0" | "c = 1"
      using len by linarith
    then show "b' ! c = [[1, 3, 3], [4, 6, 6]] ! c"
      using row0 row1 by cases simp_all
  qed
  have unchanged: "renderNextBlock biquad_dsp unity_params ?buf 1 1 example_voice
       = Some (example_voice, ?buf)"
    using silent inside idle
    by (cases "renderNextBlock biquad_dsp unity_params ?buf 1 1 example_voice") auto
  show ?thesis
    using act idle some b' unchanged by simp
qed

section \<open>The processor: a block without a sample rate\<close>

text \<open>
  C6. When \<open>processBlock\<close> is called while the cached sample rate is zero or less, every
  sample of every channel of the audio buffer is zero afterwards, the MIDI buffer is
  empty, and the processor is as it was: no voice has been rendered and the keyboard
  state has not been read, whatever the two JUCE calls of the other branch would do.
\<close>

theorem processBlock_silent:
  assumes "lastSampleRate p \<le> 0"
  shows "processBlock processNextMidiBuffer synth_renderNextBlock p buffer midiMessages
           = (p, map (map (\<lambda>_. 0)) buffer, [])
         \<and> (\<forall>c \<in> set (fst (snd (processBlock processNextMidiBuffer synth_renderNextBlock p
                                    buffer midiMessages))).
               \<forall>x \<in> set c. x = 0)"
  using assms by (auto simp: processBlock_def buffer_clear_def)

text \<open>The theorem on a processor with a cached sample rate of zero and a 2 by 2 buffer.\<close>

theorem processBlock_silent_witness:
  "lastSampleRate ((processor_init biquad_init ())\<lparr>lastSampleRate := 0\<rparr>) \<le> 0
   \<and> processBlock keep_midi keep_voices ((processor_init biquad_init ())\<lparr>lastSampleRate := 0\<rparr>)
        [[1, 2], [3, 4]] [7]
       = ((processor_init biquad_init ())\<lparr>lastSampleRate := 0\<rparr>, [[0, 0], [0, 0]], [])"
proof -
  have rate: "lastSampleRate ((processor_init biquad_init ())\<lparr>lastSampleRate := 0\<rparr>) \<le> 0"
    by simp
  show ?thesis
    using processBlock_silent [OF rate, of keep_midi keep_voices "[[1, 2], [3, 4]]" "[7]"] rate
    by simp
qed

end
